theory Spec2Isabelle
  imports Complex_Main "HOL-Library.Multiset"
begin

section \<open>Values, rows and the datastore\<close>

text \<open>
  JavaScript values as they appear in request bodies and in parsed model responses.
  An absent key (\<open>undefined\<close>) is the \<open>None\<close> of a lookup.
\<close>

datatype jsval =
    JNull
  | JBool bool
  | JNum real
  | JStr string
  | JArr "jsval list"
  | JObj "string \<Rightarrow> jsval option"

type_synonym jsobject = "string \<rightharpoonup> jsval"

type_synonym timestamp = int

text \<open>
  Modelled from the spec: the table declarations of \<open>@shared/schema\<close> (\<open>users\<close>,
  \<open>projects\<close>, \<open>apiEndpoints\<close>) are not among the sources. A row carries, typed, the
  columns that \<open>server/storage.ts\<close> and \<open>server/routes.ts\<close> name (\<open>id\<close>, \<open>userId\<close>,
  \<open>projectId\<close>, \<open>createdAt\<close>, \<open>updatedAt\<close>) and keeps every other column in \<open>attrs\<close>.
  The spec describes persistence as a direct mapping over tables with no consistency
  logic beyond upsert-on-conflict, so the tables are independent lists of rows: no
  statement on one table acts on another.
\<close>

record user =
  u_id :: string
  u_attrs :: jsobject
  u_updatedAt :: timestamp

record project =
  p_id :: string
  p_userId :: string
  p_attrs :: jsobject
  p_updatedAt :: timestamp

record apiEndpoint =
  e_id :: string
  e_projectId :: string
  e_attrs :: jsobject
  e_createdAt :: timestamp
  e_updatedAt :: timestamp

text \<open>The insert types: what a caller hands to \<open>values(...)\<close> and \<open>set(...)\<close>.\<close>

record upsertUser =
  uu_id :: string
  uu_attrs :: jsobject

record insertProject =
  ip_userId :: string
  ip_attrs :: jsobject

text \<open>\<open>Partial<InsertProject>\<close>: every key may be absent.\<close>

record partialInsertProject =
  pp_userId :: "string option"
  pp_attrs :: jsobject

record insertApiEndpoint =
  ie_projectId :: string
  ie_attrs :: jsobject

record partialInsertApiEndpoint =
  pe_projectId :: "string option"
  pe_attrs :: jsobject

record database =
  users :: "user list"
  projects :: "project list"
  apiEndpoints :: "apiEndpoint list"

text \<open>
  \<open>server/db.ts\<close> exports \<open>db = null\<close> when \<open>DATABASE_URL\<close> is not set and a connected
  instance otherwise. The datastore a storage method runs against is therefore
  \<open>None\<close> (every \<open>db.select()\<close>, \<open>db.insert()\<close>, ... throws a \<open>TypeError\<close>) or the
  current contents of the tables.
\<close>

type_synonym store = "database option"

type_synonym zodIssue = string

datatype error =
    TypeError
  | ZodError "zodIssue list"
  | Error string

text \<open>What the runtime supplies to a statement: the clock and the generated key.\<close>

record env =
  now :: timestamp
  newId :: string

section \<open>DatabaseStorage\<close>

text \<open>\<open>const [row] = await ...\<close>: the first element of the result, or \<open>undefined\<close>.\<close>

definition first_row :: "'a list \<Rightarrow> 'a option" where
  "first_row rs = (case rs of [] \<Rightarrow> None | r # _ \<Rightarrow> Some r)"

subsection \<open>User operations\<close>

definition getUser :: "string \<Rightarrow> store \<Rightarrow> error + user option" where
  "getUser i s =
     (case s of
        None \<Rightarrow> Inl TypeError
      | Some d \<Rightarrow> Inr (first_row (filter (\<lambda>u. u_id u = i) (users d))))"

text \<open>
  \<open>insert(users).values(userData).onConflictDoUpdate({target: users.id,
  set: {...userData, updatedAt: new Date()}}).returning()\<close>.
\<close>

definition upsertUser :: "env \<Rightarrow> upsertUser \<Rightarrow> store \<Rightarrow> (error + user option) \<times> store" where
  "upsertUser ev userData s =
     (case s of
        None \<Rightarrow> (Inl TypeError, s)
      | Some d \<Rightarrow>
          (if \<exists>u \<in> set (users d). u_id u = uu_id userData then
             let set_row = (\<lambda>u. u\<lparr>u_attrs := u_attrs u ++ uu_attrs userData, u_updatedAt := now ev\<rparr>);
                 hit = (\<lambda>u. u_id u = uu_id userData)
             in (Inr (first_row (map set_row (filter hit (users d)))),
                 Some (d\<lparr>users := map (\<lambda>u. if hit u then set_row u else u) (users d)\<rparr>))
           else
             let row = \<lparr>u_id = uu_id userData, u_attrs = uu_attrs userData, u_updatedAt = now ev\<rparr>
             in (Inr (Some row), Some (d\<lparr>users := users d @ [row]\<rparr>))))"

subsection \<open>Project operations\<close>

text \<open>\<open>select().from(projects).where(eq(projects.userId, userId)).orderBy(desc(projects.updatedAt))\<close>\<close>

definition getUserProjects :: "string \<Rightarrow> store \<Rightarrow> error + project list" where
  "getUserProjects userId s =
     (case s of
        None \<Rightarrow> Inl TypeError
      | Some d \<Rightarrow>
          Inr (sort_key (\<lambda>p. - p_updatedAt p) (filter (\<lambda>p. p_userId p = userId) (projects d))))"

definition getProject :: "string \<Rightarrow> store \<Rightarrow> error + project option" where
  "getProject i s =
     (case s of
        None \<Rightarrow> Inl TypeError
      | Some d \<Rightarrow> Inr (first_row (filter (\<lambda>p. p_id p = i) (projects d))))"

text \<open>\<open>insert(projects).values(project).returning()\<close>: the key and the timestamp are the table's defaults.\<close>

definition createProject :: "env \<Rightarrow> insertProject \<Rightarrow> store \<Rightarrow> (error + project option) \<times> store" where
  "createProject ev v s =
     (case s of
        None \<Rightarrow> (Inl TypeError, s)
      | Some d \<Rightarrow>
          let row = \<lparr>p_id = newId ev, p_userId = ip_userId v, p_attrs = ip_attrs v,
                     p_updatedAt = now ev\<rparr>
          in (Inr (first_row [row]), Some (d\<lparr>projects := projects d @ [row]\<rparr>)))"

text \<open>\<open>update(projects).set({...updates, updatedAt: new Date()}).where(eq(projects.id, id)).returning()\<close>\<close>

definition set_project :: "partialInsertProject \<Rightarrow> timestamp \<Rightarrow> project \<Rightarrow> project" where
  "set_project updates t p =
     p\<lparr>p_userId := (case pp_userId updates of None \<Rightarrow> p_userId p | Some u \<Rightarrow> u),
       p_attrs := p_attrs p ++ pp_attrs updates,
       p_updatedAt := t\<rparr>"

definition updateProject ::
  "env \<Rightarrow> string \<Rightarrow> partialInsertProject \<Rightarrow> store \<Rightarrow> (error + project option) \<times> store" where
  "updateProject ev i updates s =
     (case s of
        None \<Rightarrow> (Inl TypeError, s)
      | Some d \<Rightarrow>
          let hit = (\<lambda>p. p_id p = i)
          in (Inr (first_row (map (set_project updates (now ev)) (filter hit (projects d)))),
              Some (d\<lparr>projects :=
                map (\<lambda>p. if hit p then set_project updates (now ev) p else p) (projects d)\<rparr>)))"

text \<open>\<open>delete(projects).where(eq(projects.id, id))\<close>\<close>

definition deleteProject :: "string \<Rightarrow> store \<Rightarrow> (error + unit) \<times> store" where
  "deleteProject i s =
     (case s of
        None \<Rightarrow> (Inl TypeError, s)
      | Some d \<Rightarrow> (Inr (), Some (d\<lparr>projects := filter (\<lambda>p. p_id p \<noteq> i) (projects d)\<rparr>)))"

subsection \<open>API endpoint operations\<close>

definition getProjectEndpoints :: "string \<Rightarrow> store \<Rightarrow> error + apiEndpoint list" where
  "getProjectEndpoints projectId s =
     (case s of
        None \<Rightarrow> Inl TypeError
      | Some d \<Rightarrow>
          Inr (sort_key (\<lambda>e. - e_createdAt e)
                 (filter (\<lambda>e. e_projectId e = projectId) (apiEndpoints d))))"

definition createApiEndpoint ::
  "env \<Rightarrow> insertApiEndpoint \<Rightarrow> store \<Rightarrow> (error + apiEndpoint option) \<times> store" where
  "createApiEndpoint ev v s =
     (case s of
        None \<Rightarrow> (Inl TypeError, s)
      | Some d \<Rightarrow>
          let row = \<lparr>e_id = newId ev, e_projectId = ie_projectId v, e_attrs = ie_attrs v,
                     e_createdAt = now ev, e_updatedAt = now ev\<rparr>
          in (Inr (first_row [row]), Some (d\<lparr>apiEndpoints := apiEndpoints d @ [row]\<rparr>)))"

definition set_apiEndpoint :: "partialInsertApiEndpoint \<Rightarrow> timestamp \<Rightarrow> apiEndpoint \<Rightarrow> apiEndpoint" where
  "set_apiEndpoint updates t e =
     e\<lparr>e_projectId := (case pe_projectId updates of None \<Rightarrow> e_projectId e | Some q \<Rightarrow> q),
       e_attrs := e_attrs e ++ pe_attrs updates,
       e_updatedAt := t\<rparr>"

definition updateApiEndpoint ::
  "env \<Rightarrow> string \<Rightarrow> partialInsertApiEndpoint \<Rightarrow> store \<Rightarrow> (error + apiEndpoint option) \<times> store" where
  "updateApiEndpoint ev i updates s =
     (case s of
        None \<Rightarrow> (Inl TypeError, s)
      | Some d \<Rightarrow>
          let hit = (\<lambda>e. e_id e = i)
          in (Inr (first_row (map (set_apiEndpoint updates (now ev)) (filter hit (apiEndpoints d)))),
              Some (d\<lparr>apiEndpoints :=
                map (\<lambda>e. if hit e then set_apiEndpoint updates (now ev) e else e) (apiEndpoints d)\<rparr>)))"

definition deleteApiEndpoint :: "string \<Rightarrow> store \<Rightarrow> (error + unit) \<times> store" where
  "deleteApiEndpoint i s =
     (case s of
        None \<Rightarrow> (Inl TypeError, s)
      | Some d \<Rightarrow> (Inr (), Some (d\<lparr>apiEndpoints := filter (\<lambda>e. e_id e \<noteq> i) (apiEndpoints d)\<rparr>)))"

section \<open>Schema validation\<close>

text \<open>
  Modelled from the spec: \<open>insertProjectSchema\<close> and \<open>insertApiEndpointSchema\<close> are
  declared in \<open>@shared/schema\<close>, which is not among the sources; the spec only says that
  input is validated against a schema. The owner key (\<open>userId\<close>, \<open>projectId\<close>) is a
  required string: the routes put \<open>req.user.claims.sub\<close> and \<open>req.params.projectId\<close>
  there and storage compares the column with a string. The validation of every other
  column is a parameter. \<open>parse\<close> throws a \<open>ZodError\<close> holding all issues; \<open>partial()\<close>
  makes every key optional.
\<close>

record schemas =
  projectColumns :: "jsobject \<Rightarrow> zodIssue list + jsobject"
  projectColumnsPartial :: "jsobject \<Rightarrow> zodIssue list + jsobject"
  endpointColumns :: "jsobject \<Rightarrow> zodIssue list + jsobject"

definition zString :: "string \<Rightarrow> jsobject \<Rightarrow> zodIssue list + string" where
  "zString k obj =
     (case obj k of
        None \<Rightarrow> Inl [k @ '': Required'']
      | Some (JStr v) \<Rightarrow> Inr v
      | Some _ \<Rightarrow> Inl [k @ '': Expected string''])"

definition zStringOptional :: "string \<Rightarrow> jsobject \<Rightarrow> zodIssue list + string option" where
  "zStringOptional k obj =
     (case obj k of
        None \<Rightarrow> Inr None
      | Some (JStr v) \<Rightarrow> Inr (Some v)
      | Some _ \<Rightarrow> Inl [k @ '': Expected string''])"

definition zObject :: "zodIssue list + 'a \<Rightarrow> zodIssue list + 'b \<Rightarrow> ('a \<Rightarrow> 'b \<Rightarrow> 'c) \<Rightarrow> error + 'c" where
  "zObject key cols mk =
     (case (key, cols) of
        (Inr k, Inr a) \<Rightarrow> Inr (mk k a)
      | (Inl i, Inr _) \<Rightarrow> Inl (ZodError i)
      | (Inr _, Inl j) \<Rightarrow> Inl (ZodError j)
      | (Inl i, Inl j) \<Rightarrow> Inl (ZodError (i @ j)))"

definition insertProjectSchema_parse :: "schemas \<Rightarrow> jsobject \<Rightarrow> error + insertProject" where
  "insertProjectSchema_parse sc obj =
     zObject (zString ''userId'' obj) (projectColumns sc obj)
       (\<lambda>u a. \<lparr>ip_userId = u, ip_attrs = a\<rparr>)"

definition insertProjectSchema_partial_parse :: "schemas \<Rightarrow> jsobject \<Rightarrow> error + partialInsertProject" where
  "insertProjectSchema_partial_parse sc obj =
     zObject (zStringOptional ''userId'' obj) (projectColumnsPartial sc obj)
       (\<lambda>u a. \<lparr>pp_userId = u, pp_attrs = a\<rparr>)"

definition insertApiEndpointSchema_parse :: "schemas \<Rightarrow> jsobject \<Rightarrow> error + insertApiEndpoint" where
  "insertApiEndpointSchema_parse sc obj =
     zObject (zString ''projectId'' obj) (endpointColumns sc obj)
       (\<lambda>q a. \<lparr>ie_projectId = q, ie_attrs = a\<rparr>)"

section \<open>Route layer\<close>

text \<open>
  A request as a handler sees it once \<open>isAuthenticated\<close> has let it through:
  \<open>req.user.claims.sub\<close>, the path parameter (\<open>:id\<close> or \<open>:projectId\<close>) and \<open>req.body\<close>.
\<close>

record request =
  sub :: string
  param :: string
  body :: jsobject

datatype payload =
    Message string
  | Invalid string "zodIssue list"
  | UserJson "user option"
  | ProjectJson "project option"
  | ProjectsJson "project list"
  | EndpointJson "apiEndpoint option"
  | EndpointsJson "apiEndpoint list"
  | NoBody

record response =
  status :: nat
  sent :: payload

text \<open>
  The handlers run against the datastore; \<open>w_calls\<close> records, in order, every method
  of \<open>storage\<close> a handler has awaited.
\<close>

datatype storage_call =
    GetUser string
  | GetUserProjects string
  | GetProject string
  | CreateProject insertProject
  | UpdateProject string partialInsertProject
  | DeleteProject string
  | GetProjectEndpoints string
  | CreateApiEndpoint insertApiEndpoint

record world =
  w_db :: store
  w_calls :: "storage_call list"

definition await_read :: "storage_call \<Rightarrow> (store \<Rightarrow> error + 'a) \<Rightarrow> world \<Rightarrow> (error + 'a) \<times> world" where
  "await_read c f w = (f (w_db w), w\<lparr>w_calls := w_calls w @ [c]\<rparr>)"

definition await_write ::
  "storage_call \<Rightarrow> (store \<Rightarrow> (error + 'a) \<times> store) \<Rightarrow> world \<Rightarrow> (error + 'a) \<times> world" where
  "await_write c f w =
     (case f (w_db w) of (r, s) \<Rightarrow> (r, w\<lparr>w_db := s, w_calls := w_calls w @ [c]\<rparr>))"

definition json :: "payload \<Rightarrow> response" where
  "json b = \<lparr>status = 200, sent = b\<rparr>"

definition status_json :: "nat \<Rightarrow> payload \<Rightarrow> response" where
  "status_json n b = \<lparr>status = n, sent = b\<rparr>"

text \<open>\<open>catch (error) { ... res.status(500).json({ message }) }\<close>\<close>

definition catch_500 :: "string \<Rightarrow> (error + response) \<times> world \<Rightarrow> response \<times> world" where
  "catch_500 msg r =
     (case r of
        (Inl e, w) \<Rightarrow> (status_json 500 (Message msg), w)
      | (Inr res, w) \<Rightarrow> (res, w))"

text \<open>The same with \<open>if (error instanceof z.ZodError) return res.status(400).json(...)\<close> first.\<close>

definition catch_zod :: "string \<Rightarrow> string \<Rightarrow> (error + response) \<times> world \<Rightarrow> response \<times> world" where
  "catch_zod invalid msg r =
     (case r of
        (Inl (ZodError issues), w) \<Rightarrow> (status_json 400 (Invalid invalid issues), w)
      | (Inl e, w) \<Rightarrow> (status_json 500 (Message msg), w)
      | (Inr res, w) \<Rightarrow> (res, w))"

text \<open>
  The lookup and ownership check that opens five handlers: the project, or the
  response that ends the request.
\<close>

definition owned_project :: "request \<Rightarrow> world \<Rightarrow> (error + response + project) \<times> world" where
  "owned_project req w =
     (case await_read (GetProject (param req)) (getProject (param req)) w of
        (Inl e, w1) \<Rightarrow> (Inl e, w1)
      | (Inr None, w1) \<Rightarrow> (Inr (Inl (status_json 404 (Message ''Project not found''))), w1)
      | (Inr (Some project), w1) \<Rightarrow>
          (if p_userId project \<noteq> sub req
           then (Inr (Inl (status_json 403 (Message ''Access denied''))), w1)
           else (Inr (Inr project), w1)))"

text \<open>\<open>GET /api/auth/user\<close>\<close>

definition get_auth_user :: "request \<Rightarrow> world \<Rightarrow> response \<times> world" where
  "get_auth_user req w =
     catch_500 ''Failed to fetch user''
       (case await_read (GetUser (sub req)) (getUser (sub req)) w of
          (Inl e, w1) \<Rightarrow> (Inl e, w1)
        | (Inr user, w1) \<Rightarrow> (Inr (json (UserJson user)), w1))"

text \<open>\<open>GET /api/projects\<close>\<close>

definition get_projects :: "request \<Rightarrow> world \<Rightarrow> response \<times> world" where
  "get_projects req w =
     catch_500 ''Failed to fetch projects''
       (case await_read (GetUserProjects (sub req)) (getUserProjects (sub req)) w of
          (Inl e, w1) \<Rightarrow> (Inl e, w1)
        | (Inr ps, w1) \<Rightarrow> (Inr (json (ProjectsJson ps)), w1))"

text \<open>\<open>GET /api/projects/:id\<close>\<close>

definition get_project :: "request \<Rightarrow> world \<Rightarrow> response \<times> world" where
  "get_project req w =
     catch_500 ''Failed to fetch project''
       (case owned_project req w of
          (Inl e, w1) \<Rightarrow> (Inl e, w1)
        | (Inr (Inl res), w1) \<Rightarrow> (Inr res, w1)
        | (Inr (Inr project), w1) \<Rightarrow> (Inr (json (ProjectJson (Some project))), w1))"

text \<open>\<open>POST /api/projects\<close>\<close>

definition post_projects :: "schemas \<Rightarrow> env \<Rightarrow> request \<Rightarrow> world \<Rightarrow> response \<times> world" where
  "post_projects sc ev req w =
     catch_zod ''Invalid project data'' ''Failed to create project''
       (case insertProjectSchema_parse sc ((body req)(''userId'' \<mapsto> JStr (sub req))) of
          Inl e \<Rightarrow> (Inl e, w)
        | Inr projectData \<Rightarrow>
            (case await_write (CreateProject projectData) (createProject ev projectData) w of
               (Inl e, w1) \<Rightarrow> (Inl e, w1)
             | (Inr project, w1) \<Rightarrow> (Inr (status_json 201 (ProjectJson project)), w1)))"

text \<open>\<open>PUT /api/projects/:id\<close>\<close>

definition put_project :: "schemas \<Rightarrow> env \<Rightarrow> request \<Rightarrow> world \<Rightarrow> response \<times> world" where
  "put_project sc ev req w =
     catch_zod ''Invalid project data'' ''Failed to update project''
       (case owned_project req w of
          (Inl e, w1) \<Rightarrow> (Inl e, w1)
        | (Inr (Inl res), w1) \<Rightarrow> (Inr res, w1)
        | (Inr (Inr project), w1) \<Rightarrow>
            (case insertProjectSchema_partial_parse sc (body req) of
               Inl e \<Rightarrow> (Inl e, w1)
             | Inr updates \<Rightarrow>
                 (case await_write (UpdateProject (param req) updates)
                         (updateProject ev (param req) updates) w1 of
                    (Inl e, w2) \<Rightarrow> (Inl e, w2)
                  | (Inr updatedProject, w2) \<Rightarrow> (Inr (json (ProjectJson updatedProject)), w2))))"

text \<open>\<open>DELETE /api/projects/:id\<close>\<close>

definition delete_project :: "request \<Rightarrow> world \<Rightarrow> response \<times> world" where
  "delete_project req w =
     catch_500 ''Failed to delete project''
       (case owned_project req w of
          (Inl e, w1) \<Rightarrow> (Inl e, w1)
        | (Inr (Inl res), w1) \<Rightarrow> (Inr res, w1)
        | (Inr (Inr project), w1) \<Rightarrow>
            (case await_write (DeleteProject (param req)) (deleteProject (param req)) w1 of
               (Inl e, w2) \<Rightarrow> (Inl e, w2)
             | (Inr u, w2) \<Rightarrow> (Inr (status_json 204 NoBody), w2)))"

text \<open>\<open>GET /api/projects/:projectId/endpoints\<close>\<close>

definition get_endpoints :: "request \<Rightarrow> world \<Rightarrow> response \<times> world" where
  "get_endpoints req w =
     catch_500 ''Failed to fetch endpoints''
       (case owned_project req w of
          (Inl e, w1) \<Rightarrow> (Inl e, w1)
        | (Inr (Inl res), w1) \<Rightarrow> (Inr res, w1)
        | (Inr (Inr project), w1) \<Rightarrow>
            (case await_read (GetProjectEndpoints (param req)) (getProjectEndpoints (param req)) w1 of
               (Inl e, w2) \<Rightarrow> (Inl e, w2)
             | (Inr endpoints, w2) \<Rightarrow> (Inr (json (EndpointsJson endpoints)), w2)))"

text \<open>\<open>POST /api/projects/:projectId/endpoints\<close>\<close>

definition post_endpoints :: "schemas \<Rightarrow> env \<Rightarrow> request \<Rightarrow> world \<Rightarrow> response \<times> world" where
  "post_endpoints sc ev req w =
     catch_zod ''Invalid endpoint data'' ''Failed to create endpoint''
       (case owned_project req w of
          (Inl e, w1) \<Rightarrow> (Inl e, w1)
        | (Inr (Inl res), w1) \<Rightarrow> (Inr res, w1)
        | (Inr (Inr project), w1) \<Rightarrow>
            (case insertApiEndpointSchema_parse sc ((body req)(''projectId'' \<mapsto> JStr (param req))) of
               Inl e \<Rightarrow> (Inl e, w1)
             | Inr endpointData \<Rightarrow>
                 (case await_write (CreateApiEndpoint endpointData)
                         (createApiEndpoint ev endpointData) w1 of
                    (Inl e, w2) \<Rightarrow> (Inl e, w2)
                  | (Inr endpoint, w2) \<Rightarrow> (Inr (status_json 201 (EndpointJson endpoint)), w2))))"

text \<open>
  What \<open>registerRoutes\<close> installs on the application, in the order of its
  \<open>app.get\<close>, \<open>app.post\<close>, \<open>app.put\<close> and \<open>app.delete\<close> calls.
\<close>

datatype verb = GET | POST | PUT | DELETE

definition registerRoutes :: "(verb \<times> string) list" where
  "registerRoutes =
     [(GET, ''/api/auth/user''),
      (GET, ''/api/projects''),
      (GET, ''/api/projects/:id''),
      (POST, ''/api/projects''),
      (PUT, ''/api/projects/:id''),
      (DELETE, ''/api/projects/:id''),
      (GET, ''/api/projects/:projectId/endpoints''),
      (POST, ''/api/projects/:projectId/endpoints''),
      (POST, ''/api/ai/generate-component''),
      (POST, ''/api/ai/generate-backend'')]"

section \<open>AI facade\<close>

text \<open>
  \<open>ai.models.generateContent\<close> is the hosted model: what it answers is not the
  program's to decide. It is a parameter that maps the requests issued so far and the
  present request to a rejection or a response, whose \<open>text\<close> may be \<open>undefined\<close>.
  Every call is recorded in the list of issued requests.
\<close>

record generateContentParameters =
  g_model :: string
  g_contents :: string
  g_responseMimeType :: "string option"

record generateContentResponse =
  r_text :: "string option"

type_synonym genai =
  "generateContentParameters list \<Rightarrow> generateContentParameters \<Rightarrow> error + generateContentResponse"

definition generateContent ::
  "genai \<Rightarrow> generateContentParameters \<Rightarrow> generateContentParameters list
     \<Rightarrow> (error + generateContentResponse) \<times> generateContentParameters list" where
  "generateContent ai p issued = (ai issued p, issued @ [p])"

text \<open>\<open>response.text || fallback\<close>: the fallback when the text is \<open>undefined\<close> or empty.\<close>

definition or_else :: "string option \<Rightarrow> string \<Rightarrow> string" where
  "or_else t fallback = (case t of None \<Rightarrow> fallback | Some v \<Rightarrow> if v = [] then fallback else v)"

definition component_prompt :: "string \<Rightarrow> string \<Rightarrow> string \<Rightarrow> string" where
  "component_prompt componentType framework stylePreferences =
     ''Generate a modern '' @
     componentType @
     '' component using '' @
     framework @
     ''. \<newline>'' @
     ''\<newline>'' @
     ''Style preferences: '' @
     stylePreferences @
     ''\<newline>'' @
     ''\<newline>'' @
     ''Requirements:\<newline>'' @
     ''- Use TypeScript\<newline>'' @
     ''- Include proper TypeScript types\<newline>'' @
     ''- Use Tailwind CSS for styling\<newline>'' @
     ''- Make it responsive and accessible\<newline>'' @
     ''- Include proper JSX structure\<newline>'' @
     ''- Add data-testid attributes for interactive elements\<newline>'' @
     ''- Follow modern React best practices\<newline>'' @
     ''\<newline>'' @
     ''Return only the component code, no explanations.''"

definition generateReactComponent ::
  "genai \<Rightarrow> string \<Rightarrow> string \<Rightarrow> string \<Rightarrow> generateContentParameters list
     \<Rightarrow> (error + string) \<times> generateContentParameters list" where
  "generateReactComponent ai componentType framework stylePreferences issued =
     (case generateContent ai
             \<lparr>g_model = ''gemini-2.5-flash'',
              g_contents = component_prompt componentType framework stylePreferences,
              g_responseMimeType = None\<rparr> issued of
        (Inl e, issued1) \<Rightarrow> (Inl (Error ''Failed to generate component with AI''), issued1)
      | (Inr response, issued1) \<Rightarrow>
          (Inr (or_else (r_text response) ''// Error generating component''), issued1))"

text \<open>\<open>Array.prototype.join\<close>\<close>

fun join :: "string \<Rightarrow> string list \<Rightarrow> string" where
  "join sep [] = []"
| "join sep [x] = x"
| "join sep (x # y # ys) = x @ sep @ join sep (y # ys)"

text \<open>
  \<open>Object.entries(features).filter(([_, enabled]) => enabled).map(([feature]) => feature)
  .join(", ")\<close>; \<open>features\<close> is given as its entries, in the order of its keys.
\<close>

definition featuresText :: "(string \<times> bool) list \<Rightarrow> string" where
  "featuresText features = join '', '' (map fst (filter snd features))"

definition routesPrompt :: "string \<Rightarrow> string \<Rightarrow> (string \<times> bool) list \<Rightarrow> string" where
  "routesPrompt database framework features =
     ''Generate '' @
     framework @
     '' API routes for a web application with '' @
     database @
     '' database.\<newline>'' @
     ''\<newline>'' @
     ''Features to include: '' @
     featuresText features @
     ''\<newline>'' @
     ''\<newline>'' @
     ''Requirements:\<newline>'' @
     ''- Use TypeScript\<newline>'' @
     ''- Include proper error handling\<newline>'' @
     ''- Add input validation\<newline>'' @
     ''- Use modern async/await patterns\<newline>'' @
     ''- Include proper HTTP status codes\<newline>'' @
     ''- Add middleware for authentication where needed\<newline>'' @
     ''\<newline>'' @
     ''Generate the routes file with all necessary endpoints.''"

definition modelsPrompt :: "string \<Rightarrow> string \<Rightarrow> (string \<times> bool) list \<Rightarrow> string" where
  "modelsPrompt database framework features =
     ''Generate '' @
     database @
     '' database models/schemas for a web application.\<newline>'' @
     ''\<newline>'' @
     ''Features: '' @
     featuresText features @
     ''\<newline>'' @
     ''\<newline>'' @
     ''Requirements:\<newline>'' @
     ''- Use TypeScript\<newline>'' @
     ''- Include proper field types\<newline>'' @
     ''- Add relationships between models\<newline>'' @
     ''- Include timestamps\<newline>'' @
     ''- Add validation rules where appropriate\<newline>'' @
     ''\<newline>'' @
     ''Generate the models/schema file.''"

definition middlewarePrompt :: "string \<Rightarrow> string \<Rightarrow> (string \<times> bool) list \<Rightarrow> string" where
  "middlewarePrompt database framework features =
     ''Generate middleware functions for a '' @
     framework @
     '' application.\<newline>'' @
     ''\<newline>'' @
     ''Features: '' @
     featuresText features @
     ''\<newline>'' @
     ''\<newline>'' @
     ''Requirements:\<newline>'' @
     ''- Use TypeScript\<newline>'' @
     ''- Include authentication middleware\<newline>'' @
     ''- Add error handling middleware\<newline>'' @
     ''- Include request logging\<newline>'' @
     ''- Add CORS configuration if needed\<newline>'' @
     ''\<newline>'' @
     ''Generate the middleware file.''"

record backendCode =
  b_routes :: string
  b_models :: string
  b_middleware :: string

definition flash :: "string \<Rightarrow> generateContentParameters" where
  "flash prompt = \<lparr>g_model = ''gemini-2.5-flash'', g_contents = prompt, g_responseMimeType = None\<rparr>"

text \<open>
  The three calls are the elements of the array handed to \<open>Promise.all\<close>: each is
  made before any is awaited, and \<open>Promise.all\<close> rejects when one of them does.
\<close>

definition generateBackendCode ::
  "genai \<Rightarrow> string \<Rightarrow> string \<Rightarrow> (string \<times> bool) list \<Rightarrow> generateContentParameters list
     \<Rightarrow> (error + backendCode) \<times> generateContentParameters list" where
  "generateBackendCode ai database framework features issued =
     (case generateContent ai (flash (routesPrompt database framework features)) issued of
        (routesResponse, issued1) \<Rightarrow>
     (case generateContent ai (flash (modelsPrompt database framework features)) issued1 of
        (modelsResponse, issued2) \<Rightarrow>
     (case generateContent ai (flash (middlewarePrompt database framework features)) issued2 of
        (middlewareResponse, issued3) \<Rightarrow>
     (case (routesResponse, modelsResponse, middlewareResponse) of
        (Inr r, Inr m, Inr w) \<Rightarrow>
          (Inr \<lparr>b_routes = or_else (r_text r) ''// Error generating routes'',
                b_models = or_else (r_text m) ''// Error generating models'',
                b_middleware = or_else (r_text w) ''// Error generating middleware''\<rparr>,
           issued3)
      | _ \<Rightarrow> (Inl (Error ''Failed to generate backend code with AI''), issued3)))))"

definition build_prompt :: "string \<Rightarrow> string" where
  \<open>build_prompt userPrompt =
     ''You are an expert web developer. Based on this user request, generate a complete website structure:\<newline>'' @
     ''\<newline>'' @
     ''"'' @
     userPrompt @
     ''"\<newline>'' @
     ''\<newline>'' @
     ''Please provide a JSON response with:\<newline>'' @
     ''1. A suitable title for the website\<newline>'' @
     ''2. A brief description\<newline>'' @
     ''3. An array of components that should be included (with their types and content)\<newline>'' @
     ''4. Complete HTML code for the website\<newline>'' @
     ''5. Complete CSS code (using Tailwind classes where possible)\<newline>'' @
     ''6. Any necessary JavaScript code\<newline>'' @
     ''\<newline>'' @
     ''Make the design modern, responsive, and professional. Include proper structure with header, main content, and footer where appropriate.\<newline>'' @
     ''\<newline>'' @
     ''Return ONLY valid JSON in this exact format:\<newline>'' @
     ''{\<newline>'' @
     ''  "title": "Website Title",\<newline>'' @
     ''  "description": "Brief description",\<newline>'' @
     ''  "components": [{"type": "header", "content": "..."}, {"type": "hero", "content": "..."}, ...],\<newline>'' @
     ''  "htmlCode": "<!DOCTYPE html>...",\<newline>'' @
     ''  "cssCode": "/* CSS styles */",\<newline>'' @
     ''  "jsCode": "// JavaScript code"\<newline>'' @
     ''}''\<close>

text \<open>JavaScript truthiness, and \<open>value || fallback\<close> on a property that may be absent.\<close>

definition truthy :: "jsval \<Rightarrow> bool" where
  "truthy v =
     (case v of
        JNull \<Rightarrow> False
      | JBool b \<Rightarrow> b
      | JNum n \<Rightarrow> n \<noteq> 0
      | JStr s \<Rightarrow> s \<noteq> []
      | JArr xs \<Rightarrow> True
      | JObj m \<Rightarrow> True)"

definition js_or :: "jsval option \<Rightarrow> jsval \<Rightarrow> jsval" where
  "js_or v fallback = (case v of None \<Rightarrow> fallback | Some x \<Rightarrow> if truthy x then x else fallback)"

text \<open>
  \<open>result.key\<close> for the six keys read below: the object's own entry, and \<open>undefined\<close>
  on a boolean, a number, a string or an array. (On \<open>null\<close> the read throws; the caller
  handles that case.)
\<close>

definition property :: "jsval \<Rightarrow> string \<Rightarrow> jsval option" where
  "property v k = (case v of JObj m \<Rightarrow> m k | _ \<Rightarrow> None)"

record site =
  s_title :: jsval
  s_description :: jsval
  s_components :: jsval
  s_htmlCode :: jsval
  s_cssCode :: jsval
  s_jsCode :: jsval

text \<open>
  \<open>JSON.parse\<close> belongs to the language, not to the program: it is the parameter
  \<open>JSON_parse\<close>, \<open>None\<close> where it throws a \<open>SyntaxError\<close>.
\<close>

definition buildFromPrompt ::
  "(string \<Rightarrow> jsval option) \<Rightarrow> genai \<Rightarrow> string \<Rightarrow> generateContentParameters list
     \<Rightarrow> (error + site) \<times> generateContentParameters list" where
  "buildFromPrompt JSON_parse ai userPrompt issued =
     (case generateContent ai
             \<lparr>g_model = ''gemini-2.5-pro'',
              g_contents = build_prompt userPrompt,
              g_responseMimeType = Some ''application/json''\<rparr> issued of
        (Inl e, issued1) \<Rightarrow> (Inl (Error ''Failed to generate website from prompt''), issued1)
      | (Inr response, issued1) \<Rightarrow>
          (case JSON_parse (or_else (r_text response) ''{}'') of
             None \<Rightarrow> (Inl (Error ''Failed to generate website from prompt''), issued1)
           | Some JNull \<Rightarrow> (Inl (Error ''Failed to generate website from prompt''), issued1)
           | Some result \<Rightarrow>
               (Inr \<lparr>s_title = js_or (property result ''title'') (JStr ''Generated Website''),
                     s_description = js_or (property result ''description'') (JStr ''Generated using AI''),
                     s_components = js_or (property result ''components'') (JArr []),
                     s_htmlCode = js_or (property result ''htmlCode'')
                       (JStr ''<!DOCTYPE html><html><head><title>Generated Site</title></head><body><h1>Generated Content</h1></body></html>''),
                     s_cssCode = js_or (property result ''cssCode'') (JStr ''/* Generated styles */''),
                     s_jsCode = js_or (property result ''jsCode'') (JStr ''// Generated JavaScript'')\<rparr>,
                issued1)))"

datatype code_type = Component | Backend

definition type_string :: "code_type \<Rightarrow> string" where
  "type_string t = (case t of Component \<Rightarrow> ''component'' | Backend \<Rightarrow> ''backend'')"

definition optimize_prompt :: "string \<Rightarrow> code_type \<Rightarrow> string" where
  "optimize_prompt code type =
     ''Analyze and optimize the following '' @
     type_string type @
     '' code:\<newline>'' @
     ''\<newline>'' @
     code @
     ''\<newline>'' @
     ''\<newline>'' @
     ''Please provide optimized version with:\<newline>'' @
     ''- Better performance\<newline>'' @
     ''- Improved readability\<newline>'' @
     ''- Modern best practices\<newline>'' @
     ''- Proper error handling\<newline>'' @
     ''- Security improvements (if applicable)\<newline>'' @
     ''\<newline>'' @
     ''Return only the optimized code, no explanations.''"

definition optimizeCode ::
  "genai \<Rightarrow> string \<Rightarrow> code_type \<Rightarrow> generateContentParameters list
     \<Rightarrow> (error + string) \<times> generateContentParameters list" where
  "optimizeCode ai code type issued =
     (case generateContent ai
             \<lparr>g_model = ''gemini-2.5-pro'',
              g_contents = optimize_prompt code type,
              g_responseMimeType = None\<rparr> issued of
        (Inl e, issued1) \<Rightarrow> (Inr code, issued1)
      | (Inr response, issued1) \<Rightarrow> (Inr (or_else (r_text response) code), issued1))"

section \<open>Example inputs\<close>

text \<open>
  A datastore with one project of user \<open>alice\<close> and one endpoint of that project, a
  clock reading, and schemas whose remaining columns are a required string \<open>title\<close>
  for projects and a required string \<open>path\<close> for endpoints.
\<close>

definition example_project :: project where
  "example_project = \<lparr>p_id = ''p1'', p_userId = ''alice'', p_attrs = Map.empty, p_updatedAt = 0\<rparr>"

definition example_endpoint :: apiEndpoint where
  "example_endpoint =
     \<lparr>e_id = ''e1'', e_projectId = ''p1'', e_attrs = Map.empty, e_createdAt = 0, e_updatedAt = 0\<rparr>"

definition example_db :: database where
  "example_db = \<lparr>users = [], projects = [example_project], apiEndpoints = [example_endpoint]\<rparr>"

definition example_world :: world where
  "example_world = \<lparr>w_db = Some example_db, w_calls = []\<rparr>"

definition example_env :: env where
  "example_env = \<lparr>now = 1000, newId = ''p2''\<rparr>"

definition required_string :: "string \<Rightarrow> jsobject \<Rightarrow> zodIssue list + jsobject" where
  "required_string k obj =
     (case obj k of
        Some (JStr t) \<Rightarrow> Inr [k \<mapsto> JStr t]
      | _ \<Rightarrow> Inl [k @ '': Required''])"

definition optional_string :: "string \<Rightarrow> jsobject \<Rightarrow> zodIssue list + jsobject" where
  "optional_string k obj =
     (case obj k of
        None \<Rightarrow> Inr Map.empty
      | Some (JStr t) \<Rightarrow> Inr [k \<mapsto> JStr t]
      | Some _ \<Rightarrow> Inl [k @ '': Expected string''])"

definition example_schemas :: schemas where
  "example_schemas =
     \<lparr>projectColumns = required_string ''title'',
      projectColumnsPartial = optional_string ''title'',
      endpointColumns = required_string ''path''\<rparr>"

text \<open>A model that rejects every request, and one that answers every request with the same text.\<close>

definition ai_down :: genai where
  "ai_down issued p = Inl (Error ''503 Service Unavailable'')"

definition ai_says :: "string option \<Rightarrow> genai" where
  "ai_says t issued p = Inr \<lparr>r_text = t\<rparr>"

text \<open>\<open>JSON.parse\<close> on the three texts the examples use.\<close>

definition example_parse :: "string \<Rightarrow> jsval option" where
  \<open>example_parse t =
     (if t = ''{}'' then Some (JObj Map.empty)
      else if t = ''{"title": "Shop", "jsCode": 7}''
        then Some (JObj [''title'' \<mapsto> JStr ''Shop'', ''jsCode'' \<mapsto> JNum 7])
      else None)\<close>

section \<open>Storage: frame, idempotence and listing\<close>

lemma upsertUser_frame:
  "map_option projects (snd (upsertUser ev v s)) = map_option projects s"
  "map_option apiEndpoints (snd (upsertUser ev v s)) = map_option apiEndpoints s"
  by (cases s; simp add: upsertUser_def Let_def)+

lemma project_writes_frame:
  "map_option users (snd (createProject ev v s)) = map_option users s"
  "map_option apiEndpoints (snd (createProject ev v s)) = map_option apiEndpoints s"
  "map_option users (snd (updateProject ev i u s)) = map_option users s"
  "map_option apiEndpoints (snd (updateProject ev i u s)) = map_option apiEndpoints s"
  "map_option users (snd (deleteProject i s)) = map_option users s"
  "map_option apiEndpoints (snd (deleteProject i s)) = map_option apiEndpoints s"
  by (cases s; simp add: createProject_def updateProject_def deleteProject_def Let_def)+

lemma endpoint_writes_frame:
  "map_option users (snd (createApiEndpoint ev ve s)) = map_option users s"
  "map_option projects (snd (createApiEndpoint ev ve s)) = map_option projects s"
  "map_option users (snd (updateApiEndpoint ev i ue s)) = map_option users s"
  "map_option projects (snd (updateApiEndpoint ev i ue s)) = map_option projects s"
  "map_option users (snd (deleteApiEndpoint i s)) = map_option users s"
  "map_option projects (snd (deleteApiEndpoint i s)) = map_option projects s"
  by (cases s; simp add: createApiEndpoint_def updateApiEndpoint_def deleteApiEndpoint_def Let_def)+

lemma reads_one_table:
  "getUser i (Some d) = getUser i (Some (d\<lparr>projects := ps, apiEndpoints := es\<rparr>))"
  "getUserProjects i (Some d) = getUserProjects i (Some (d\<lparr>users := us, apiEndpoints := es\<rparr>))"
  "getProject i (Some d) = getProject i (Some (d\<lparr>users := us, apiEndpoints := es\<rparr>))"
  "getProjectEndpoints i (Some d) = getProjectEndpoints i (Some (d\<lparr>users := us, projects := ps\<rparr>))"
  by (simp_all add: getUser_def getUserProjects_def getProject_def getProjectEndpoints_def)

lemma writes_one_table:
  "upsertUser ev uv (Some (d\<lparr>projects := ps, apiEndpoints := es\<rparr>)) =
     (fst (upsertUser ev uv (Some d)),
      map_option (\<lambda>d'. d'\<lparr>projects := ps, apiEndpoints := es\<rparr>) (snd (upsertUser ev uv (Some d))))"
  "createProject ev v (Some (d\<lparr>users := us, apiEndpoints := es\<rparr>)) =
     (fst (createProject ev v (Some d)),
      map_option (\<lambda>d'. d'\<lparr>users := us, apiEndpoints := es\<rparr>) (snd (createProject ev v (Some d))))"
  "updateProject ev i u (Some (d\<lparr>users := us, apiEndpoints := es\<rparr>)) =
     (fst (updateProject ev i u (Some d)),
      map_option (\<lambda>d'. d'\<lparr>users := us, apiEndpoints := es\<rparr>) (snd (updateProject ev i u (Some d))))"
  "deleteProject i (Some (d\<lparr>users := us, apiEndpoints := es\<rparr>)) =
     (fst (deleteProject i (Some d)),
      map_option (\<lambda>d'. d'\<lparr>users := us, apiEndpoints := es\<rparr>) (snd (deleteProject i (Some d))))"
  "createApiEndpoint ev ve (Some (d\<lparr>users := us, projects := ps\<rparr>)) =
     (fst (createApiEndpoint ev ve (Some d)),
      map_option (\<lambda>d'. d'\<lparr>users := us, projects := ps\<rparr>) (snd (createApiEndpoint ev ve (Some d))))"
  "updateApiEndpoint ev i ue (Some (d\<lparr>users := us, projects := ps\<rparr>)) =
     (fst (updateApiEndpoint ev i ue (Some d)),
      map_option (\<lambda>d'. d'\<lparr>users := us, projects := ps\<rparr>) (snd (updateApiEndpoint ev i ue (Some d))))"
  "deleteApiEndpoint i (Some (d\<lparr>users := us, projects := ps\<rparr>)) =
     (fst (deleteApiEndpoint i (Some d)),
      map_option (\<lambda>d'. d'\<lparr>users := us, projects := ps\<rparr>) (snd (deleteApiEndpoint i (Some d))))"
  by (simp_all add: upsertUser_def createProject_def updateProject_def deleteProject_def
      createApiEndpoint_def updateApiEndpoint_def deleteApiEndpoint_def Let_def)

lemma deleteProject_rows:
  "snd (deleteProject i (Some d)) = Some (d\<lparr>projects := filter (\<lambda>p. p_id p \<noteq> i) (projects d)\<rparr>)"
  by (simp add: deleteProject_def)

lemma deleteProject_keeps_endpoints:
  "getProjectEndpoints q (snd (deleteProject i s)) = getProjectEndpoints q s"
  by (cases s) (simp_all add: deleteProject_def getProjectEndpoints_def)

text \<open>
  Claim C2. Every storage operation reads or writes the rows of one table. The
  user, project and endpoint writers leave the other two tables as they were
  (whether or not a database is connected); each reader returns the same result when
  the other two tables are replaced by any rows at all, and each writer then returns
  the same value and writes the same rows to its own table. In particular
  \<open>deleteProject\<close> keeps exactly the project rows with another id, touches neither
  \<open>users\<close> nor \<open>apiEndpoints\<close>, and the endpoints of any project, the deleted one
  included, read the same afterwards: they are not deleted with it.
\<close>

theorem storage_single_table:
  "map_option projects (snd (upsertUser ev uv s)) = map_option projects s
   \<and> map_option apiEndpoints (snd (upsertUser ev uv s)) = map_option apiEndpoints s
   \<and> map_option users (snd (createProject ev v s)) = map_option users s
   \<and> map_option apiEndpoints (snd (createProject ev v s)) = map_option apiEndpoints s
   \<and> map_option users (snd (updateProject ev i u s)) = map_option users s
   \<and> map_option apiEndpoints (snd (updateProject ev i u s)) = map_option apiEndpoints s
   \<and> map_option users (snd (deleteProject i s)) = map_option users s
   \<and> map_option apiEndpoints (snd (deleteProject i s)) = map_option apiEndpoints s
   \<and> map_option users (snd (createApiEndpoint ev ve s)) = map_option users s
   \<and> map_option projects (snd (createApiEndpoint ev ve s)) = map_option projects s
   \<and> map_option users (snd (updateApiEndpoint ev i ue s)) = map_option users s
   \<and> map_option projects (snd (updateApiEndpoint ev i ue s)) = map_option projects s
   \<and> map_option users (snd (deleteApiEndpoint i s)) = map_option users s
   \<and> map_option projects (snd (deleteApiEndpoint i s)) = map_option projects s
   \<and> getUser i (Some d) = getUser i (Some (d\<lparr>projects := ps, apiEndpoints := es\<rparr>))
   \<and> getUserProjects i (Some d) = getUserProjects i (Some (d\<lparr>users := us, apiEndpoints := es\<rparr>))
   \<and> getProject i (Some d) = getProject i (Some (d\<lparr>users := us, apiEndpoints := es\<rparr>))
   \<and> getProjectEndpoints i (Some d) = getProjectEndpoints i (Some (d\<lparr>users := us, projects := ps\<rparr>))
   \<and> upsertUser ev uv (Some (d\<lparr>projects := ps, apiEndpoints := es\<rparr>)) =
       (fst (upsertUser ev uv (Some d)),
        map_option (\<lambda>d'. d'\<lparr>projects := ps, apiEndpoints := es\<rparr>) (snd (upsertUser ev uv (Some d))))
   \<and> createProject ev v (Some (d\<lparr>users := us, apiEndpoints := es\<rparr>)) =
       (fst (createProject ev v (Some d)),
        map_option (\<lambda>d'. d'\<lparr>users := us, apiEndpoints := es\<rparr>) (snd (createProject ev v (Some d))))
   \<and> updateProject ev i u (Some (d\<lparr>users := us, apiEndpoints := es\<rparr>)) =
       (fst (updateProject ev i u (Some d)),
        map_option (\<lambda>d'. d'\<lparr>users := us, apiEndpoints := es\<rparr>) (snd (updateProject ev i u (Some d))))
   \<and> deleteProject i (Some (d\<lparr>users := us, apiEndpoints := es\<rparr>)) =
       (fst (deleteProject i (Some d)),
        map_option (\<lambda>d'. d'\<lparr>users := us, apiEndpoints := es\<rparr>) (snd (deleteProject i (Some d))))
   \<and> createApiEndpoint ev ve (Some (d\<lparr>users := us, projects := ps\<rparr>)) =
       (fst (createApiEndpoint ev ve (Some d)),
        map_option (\<lambda>d'. d'\<lparr>users := us, projects := ps\<rparr>) (snd (createApiEndpoint ev ve (Some d))))
   \<and> updateApiEndpoint ev i ue (Some (d\<lparr>users := us, projects := ps\<rparr>)) =
       (fst (updateApiEndpoint ev i ue (Some d)),
        map_option (\<lambda>d'. d'\<lparr>users := us, projects := ps\<rparr>) (snd (updateApiEndpoint ev i ue (Some d))))
   \<and> deleteApiEndpoint i (Some (d\<lparr>users := us, projects := ps\<rparr>)) =
       (fst (deleteApiEndpoint i (Some d)),
        map_option (\<lambda>d'. d'\<lparr>users := us, projects := ps\<rparr>) (snd (deleteApiEndpoint i (Some d))))
   \<and> snd (deleteProject i (Some d))
        = Some (d\<lparr>projects := filter (\<lambda>p. p_id p \<noteq> i) (projects d)\<rparr>)
   \<and> getProjectEndpoints q (snd (deleteProject i s)) = getProjectEndpoints q s"
  by (intro conjI upsertUser_frame project_writes_frame endpoint_writes_frame reads_one_table
      writes_one_table deleteProject_rows deleteProject_keeps_endpoints)

lemma map_add_twice: "(m ++ a) ++ a = m ++ a"
  by (simp add: map_add_def fun_eq_iff split: option.splits)

lemma set_project_twice:
  "set_project u t2 (set_project u t1 p) = set_project u t2 p"
  by (cases "pp_userId u") (simp_all add: set_project_def map_add_twice)

lemma set_project_id: "p_id (set_project u t p) = p_id p"
  by (simp add: set_project_def)

lemma update_rows_twice:
  "map (\<lambda>p. if p_id p = i then set_project u t2 p else p)
     (map (\<lambda>p. if p_id p = i then set_project u t1 p else p) ps)
   = map (\<lambda>p. if p_id p = i then set_project u t2 p else p) ps"
  by (induction ps) (simp_all add: set_project_twice set_project_id)

text \<open>
  Claim C4, as the claim states it, fails for \<open>updateProject\<close>: every application
  writes \<open>updatedAt: new Date()\<close>, so a second application one second after the first
  leaves a row that differs from the row after the first.
\<close>

theorem updateProject_twice_differs:
  "snd (updateProject \<lparr>now = 2000, newId = ''p2''\<rparr> ''p1'' \<lparr>pp_userId = None, pp_attrs = Map.empty\<rparr>
     (snd (updateProject \<lparr>now = 1000, newId = ''p2''\<rparr> ''p1''
        \<lparr>pp_userId = None, pp_attrs = Map.empty\<rparr> (Some example_db))))
   \<noteq> snd (updateProject \<lparr>now = 1000, newId = ''p2''\<rparr> ''p1''
        \<lparr>pp_userId = None, pp_attrs = Map.empty\<rparr> (Some example_db))"
  by (simp add: updateProject_def example_db_def example_project_def set_project_def Let_def)

text \<open>
  Claim C4, amended. Deleting a project twice leaves the datastore as deleting it
  once does. Applying the same partial update to the same id twice leaves the
  datastore as one application made at the time of the second does: every column
  the update names holds the same value as after one application, and \<open>updatedAt\<close>
  holds the time of the last application.
\<close>

theorem delete_update_idempotent:
  "snd (deleteProject i (snd (deleteProject i s))) = snd (deleteProject i s)
   \<and> snd (updateProject ev2 i u (snd (updateProject ev1 i u s))) = snd (updateProject ev2 i u s)"
proof
  show "snd (deleteProject i (snd (deleteProject i s))) = snd (deleteProject i s)"
    by (cases s) (simp_all add: deleteProject_def)
  show "snd (updateProject ev2 i u (snd (updateProject ev1 i u s))) = snd (updateProject ev2 i u s)"
    by (cases s) (simp_all add: updateProject_def Let_def update_rows_twice del: map_map)
qed

text \<open>
  Claim C10. On a connected database \<open>getUserProjects userId\<close> returns a list that
  holds exactly the stored projects whose \<open>userId\<close> is the argument, each as often as
  it is stored and no project of another user, in descending order of \<open>updatedAt\<close>.
\<close>

theorem getUserProjects_exact:
  "\<exists>ps. getUserProjects uid (Some d) = Inr ps
     \<and> mset ps = filter_mset (\<lambda>p. p_userId p = uid) (mset (projects d))
     \<and> set ps = {p \<in> set (projects d). p_userId p = uid}
     \<and> sorted_wrt (\<lambda>a b. p_updatedAt b \<le> p_updatedAt a) ps"
proof -
  let ?ps = "sort_key (\<lambda>p. - p_updatedAt p) (filter (\<lambda>p. p_userId p = uid) (projects d))"
  have "sorted (map (\<lambda>p. - p_updatedAt p) ?ps)"
    by (rule sorted_sort_key)
  then have "sorted_wrt (\<lambda>a b. p_updatedAt b \<le> p_updatedAt a) ?ps"
    by (simp add: sorted_map)
  then show ?thesis
    by (auto simp: getUserProjects_def)
qed

section \<open>Route layer: ownership, creation and validation\<close>

lemma owned_project_denied:
  assumes "getProject (param req) (w_db w) = Inr (Some p)" and "p_userId p \<noteq> sub req"
  shows "owned_project req w =
           (Inr (Inl \<lparr>status = 403, sent = Message ''Access denied''\<rparr>),
            w\<lparr>w_calls := w_calls w @ [GetProject (param req)]\<rparr>)"
  using assms by (simp add: owned_project_def await_read_def status_json_def)

lemma owned_project_granted:
  assumes "getProject (param req) (w_db w) = Inr (Some p)" and "p_userId p = sub req"
  shows "owned_project req w = (Inr (Inr p), w\<lparr>w_calls := w_calls w @ [GetProject (param req)]\<rparr>)"
  using assms by (simp add: owned_project_def await_read_def)

lemma owned_project_db: "w_db (snd (owned_project req w)) = w_db w"
  by (simp add: owned_project_def await_read_def split: sum.splits option.splits)

lemma example_lookup: "getProject ''p1'' (Some example_db) = Inr (Some example_project)"
  by (simp add: getProject_def example_db_def example_project_def first_row_def)

text \<open>
  Claim C1. When the project a request names exists and its \<open>userId\<close> is not the
  session user's id, each of the five handlers (\<open>GET\<close>, \<open>PUT\<close>, \<open>DELETE
  /api/projects/:id\<close>, \<open>GET\<close> and \<open>POST /api/projects/:projectId/endpoints\<close>) answers
  403 with the message "Access denied"; the datastore is the one it started from, and
  the only storage method it has called is the lookup \<open>getProject\<close> of that id: no
  update, delete or insert, and no read of the project's endpoints.
\<close>

theorem access_denied_before_storage:
  assumes "getProject (param req) (w_db w) = Inr (Some p)" and "p_userId p \<noteq> sub req"
  shows "get_project req w =
           (\<lparr>status = 403, sent = Message ''Access denied''\<rparr>,
            w\<lparr>w_calls := w_calls w @ [GetProject (param req)]\<rparr>)
       \<and> put_project sc ev req w =
           (\<lparr>status = 403, sent = Message ''Access denied''\<rparr>,
            w\<lparr>w_calls := w_calls w @ [GetProject (param req)]\<rparr>)
       \<and> delete_project req w =
           (\<lparr>status = 403, sent = Message ''Access denied''\<rparr>,
            w\<lparr>w_calls := w_calls w @ [GetProject (param req)]\<rparr>)
       \<and> get_endpoints req w =
           (\<lparr>status = 403, sent = Message ''Access denied''\<rparr>,
            w\<lparr>w_calls := w_calls w @ [GetProject (param req)]\<rparr>)
       \<and> post_endpoints sc ev req w =
           (\<lparr>status = 403, sent = Message ''Access denied''\<rparr>,
            w\<lparr>w_calls := w_calls w @ [GetProject (param req)]\<rparr>)"
  using owned_project_denied [OF assms]
  by (simp add: get_project_def put_project_def delete_project_def get_endpoints_def
      post_endpoints_def catch_500_def catch_zod_def)

theorem access_denied_witness:
  "getProject ''p1'' (Some example_db) = Inr (Some example_project)
   \<and> p_userId example_project \<noteq> ''bob''
   \<and> get_project \<lparr>sub = ''bob'', param = ''p1'', body = Map.empty\<rparr> example_world =
        (\<lparr>status = 403, sent = Message ''Access denied''\<rparr>,
         \<lparr>w_db = Some example_db, w_calls = [GetProject ''p1'']\<rparr>)
   \<and> put_project example_schemas example_env
        \<lparr>sub = ''bob'', param = ''p1'', body = Map.empty\<rparr> example_world =
        (\<lparr>status = 403, sent = Message ''Access denied''\<rparr>,
         \<lparr>w_db = Some example_db, w_calls = [GetProject ''p1'']\<rparr>)
   \<and> delete_project \<lparr>sub = ''bob'', param = ''p1'', body = Map.empty\<rparr> example_world =
        (\<lparr>status = 403, sent = Message ''Access denied''\<rparr>,
         \<lparr>w_db = Some example_db, w_calls = [GetProject ''p1'']\<rparr>)
   \<and> get_endpoints \<lparr>sub = ''bob'', param = ''p1'', body = Map.empty\<rparr> example_world =
        (\<lparr>status = 403, sent = Message ''Access denied''\<rparr>,
         \<lparr>w_db = Some example_db, w_calls = [GetProject ''p1'']\<rparr>)
   \<and> post_endpoints example_schemas example_env
        \<lparr>sub = ''bob'', param = ''p1'', body = Map.empty\<rparr> example_world =
        (\<lparr>status = 403, sent = Message ''Access denied''\<rparr>,
         \<lparr>w_db = Some example_db, w_calls = [GetProject ''p1'']\<rparr>)"
proof -
  have found: "getProject (param \<lparr>sub = ''bob'', param = ''p1'', body = Map.empty\<rparr>)
                 (w_db example_world) = Inr (Some example_project)"
    by (simp add: example_world_def example_lookup)
  have other: "p_userId example_project \<noteq> sub \<lparr>sub = ''bob'', param = ''p1'', body = Map.empty\<rparr>"
    by (simp add: example_project_def)
  show ?thesis
    using access_denied_before_storage [OF found other, of example_schemas example_env]
    by (simp add: example_world_def example_lookup example_project_def)
qed

lemma zObject_Inl: "zObject k c mk = Inl e \<Longrightarrow> \<exists>issues. e = ZodError issues"
  by (auto simp: zObject_def split: sum.splits)

lemma post_projects_invalid:
  assumes "insertProjectSchema_parse sc ((body req)(''userId'' \<mapsto> JStr (sub req))) = Inl e"
  shows "\<exists>issues. e = ZodError issues \<and>
           post_projects sc ev req w =
             (\<lparr>status = 400, sent = Invalid ''Invalid project data'' issues\<rparr>, w)"
proof -
  from assms obtain issues where "e = ZodError issues"
    unfolding insertProjectSchema_parse_def by (blast dest: zObject_Inl)
  with assms show ?thesis
    by (simp add: post_projects_def catch_zod_def status_json_def)
qed

lemma put_project_invalid:
  assumes "getProject (param req) (w_db w) = Inr (Some p)" and "p_userId p = sub req"
    and "insertProjectSchema_partial_parse sc (body req) = Inl e"
  shows "\<exists>issues. e = ZodError issues \<and>
           put_project sc ev req w =
             (\<lparr>status = 400, sent = Invalid ''Invalid project data'' issues\<rparr>,
              w\<lparr>w_calls := w_calls w @ [GetProject (param req)]\<rparr>)"
proof -
  from assms(3) obtain issues where "e = ZodError issues"
    unfolding insertProjectSchema_partial_parse_def by (blast dest: zObject_Inl)
  with assms(3) owned_project_granted [OF assms(1,2)] show ?thesis
    by (simp add: put_project_def catch_zod_def status_json_def)
qed

lemma post_endpoints_invalid:
  assumes "getProject (param req) (w_db w) = Inr (Some p)" and "p_userId p = sub req"
    and "insertApiEndpointSchema_parse sc ((body req)(''projectId'' \<mapsto> JStr (param req))) = Inl e"
  shows "\<exists>issues. e = ZodError issues \<and>
           post_endpoints sc ev req w =
             (\<lparr>status = 400, sent = Invalid ''Invalid endpoint data'' issues\<rparr>,
              w\<lparr>w_calls := w_calls w @ [GetProject (param req)]\<rparr>)"
proof -
  from assms(3) obtain issues where "e = ZodError issues"
    unfolding insertApiEndpointSchema_parse_def by (blast dest: zObject_Inl)
  with assms(3) owned_project_granted [OF assms(1,2)] show ?thesis
    by (simp add: post_endpoints_def catch_zod_def status_json_def)
qed

lemma getProject_Inl: "getProject i s = Inl x \<Longrightarrow> x = TypeError"
  by (cases s) (simp_all add: getProject_def)

lemma owned_project_failed:
  assumes "getProject (param req) (w_db w) = Inl x"
  shows "owned_project req w = (Inl TypeError, w\<lparr>w_calls := w_calls w @ [GetProject (param req)]\<rparr>)"
  using assms getProject_Inl [OF assms] by (simp add: owned_project_def await_read_def)

lemma owned_project_missing:
  assumes "getProject (param req) (w_db w) = Inr None"
  shows "owned_project req w =
           (Inr (Inl \<lparr>status = 404, sent = Message ''Project not found''\<rparr>),
            w\<lparr>w_calls := w_calls w @ [GetProject (param req)]\<rparr>)"
  using assms by (simp add: owned_project_def await_read_def status_json_def)

lemma put_project_before_parse:
  "getProject (param req) (w_db w) = Inl x \<Longrightarrow>
     put_project sc ev req w =
       (\<lparr>status = 500, sent = Message ''Failed to update project''\<rparr>,
        w\<lparr>w_calls := w_calls w @ [GetProject (param req)]\<rparr>)"
  "getProject (param req) (w_db w) = Inr None \<Longrightarrow>
     put_project sc ev req w =
       (\<lparr>status = 404, sent = Message ''Project not found''\<rparr>,
        w\<lparr>w_calls := w_calls w @ [GetProject (param req)]\<rparr>)"
  "getProject (param req) (w_db w) = Inr (Some p) \<Longrightarrow> p_userId p \<noteq> sub req \<Longrightarrow>
     put_project sc ev req w =
       (\<lparr>status = 403, sent = Message ''Access denied''\<rparr>,
        w\<lparr>w_calls := w_calls w @ [GetProject (param req)]\<rparr>)"
  by (simp_all add: put_project_def catch_zod_def status_json_def
      owned_project_failed owned_project_missing owned_project_denied)

lemma post_endpoints_before_parse:
  "getProject (param req) (w_db w) = Inl x \<Longrightarrow>
     post_endpoints sc ev req w =
       (\<lparr>status = 500, sent = Message ''Failed to create endpoint''\<rparr>,
        w\<lparr>w_calls := w_calls w @ [GetProject (param req)]\<rparr>)"
  "getProject (param req) (w_db w) = Inr None \<Longrightarrow>
     post_endpoints sc ev req w =
       (\<lparr>status = 404, sent = Message ''Project not found''\<rparr>,
        w\<lparr>w_calls := w_calls w @ [GetProject (param req)]\<rparr>)"
  "getProject (param req) (w_db w) = Inr (Some p) \<Longrightarrow> p_userId p \<noteq> sub req \<Longrightarrow>
     post_endpoints sc ev req w =
       (\<lparr>status = 403, sent = Message ''Access denied''\<rparr>,
        w\<lparr>w_calls := w_calls w @ [GetProject (param req)]\<rparr>)"
  by (simp_all add: post_endpoints_def catch_zod_def status_json_def
      owned_project_failed owned_project_missing owned_project_denied)

lemma put_project_invalid_db:
  assumes "insertProjectSchema_partial_parse sc (body req) = Inl e"
  shows "w_db (snd (put_project sc ev req w)) = w_db w"
proof -
  obtain r w1 where o: "owned_project req w = (r, w1)"
    by (cases "owned_project req w")
  then have "w_db w1 = w_db w"
    using owned_project_db [of req w] by simp
  with o assms show ?thesis
    by (auto simp: put_project_def catch_zod_def split: sum.splits error.splits)
qed

lemma post_endpoints_invalid_db:
  assumes "insertApiEndpointSchema_parse sc ((body req)(''projectId'' \<mapsto> JStr (param req))) = Inl e"
  shows "w_db (snd (post_endpoints sc ev req w)) = w_db w"
proof -
  obtain r w1 where o: "owned_project req w = (r, w1)"
    by (cases "owned_project req w")
  then have "w_db w1 = w_db w"
    using owned_project_db [of req w] by simp
  with o assms show ?thesis
    by (auto simp: post_endpoints_def catch_zod_def split: sum.splits error.splits)
qed




text \<open>
  Claim C5, as the claim states it, fails for \<open>PUT /api/projects/:id\<close>: the lookup
  and the ownership check come before the body is parsed. A body whose \<open>title\<close> is a
  number fails the schema, and the request that carries it to an id no project has
  is answered 404, not 400.
\<close>

theorem invalid_body_not_found:
  "insertProjectSchema_partial_parse example_schemas [''title'' \<mapsto> JNum 5]
     = Inl (ZodError [''title: Expected string''])
   \<and> put_project example_schemas example_env
        \<lparr>sub = ''alice'', param = ''p9'', body = [''title'' \<mapsto> JNum 5]\<rparr> example_world
      = (\<lparr>status = 404, sent = Message ''Project not found''\<rparr>,
         \<lparr>w_db = Some example_db, w_calls = [GetProject ''p9'']\<rparr>)"
  by (simp add: insertProjectSchema_partial_parse_def example_schemas_def optional_string_def
      zObject_def zStringOptional_def put_project_def owned_project_def await_read_def
      getProject_def example_world_def example_db_def example_project_def first_row_def
      catch_zod_def status_json_def)

text \<open>
  Claim C5, amended. A \<open>POST /api/projects\<close> request whose body, with \<open>userId\<close> set to
  the session user's id, fails the insert schema is answered 400 with the issues of
  the \<open>ZodError\<close>, and no storage method is called. A \<open>PUT /api/projects/:id\<close> request
  whose body fails the partial insert schema, and a \<open>POST
  /api/projects/:projectId/endpoints\<close> request whose body, with \<open>projectId\<close> set to
  the path's, fails the endpoint insert schema, leave the datastore unchanged in
  every case and call no storage method but the lookup. They are answered 400 with
  the issues when the project exists and belongs to the session user; otherwise the
  answer is that of the lookup and ownership check: 500 with the handler's failure
  message when the lookup throws, 404 "Project not found" when no project has the
  id, and 403 "Access denied" when the project belongs to another user.
\<close>

theorem invalid_body_rejected:
  "(insertProjectSchema_parse sc ((body req)(''userId'' \<mapsto> JStr (sub req))) = Inl e \<longrightarrow>
      (\<exists>issues. e = ZodError issues
         \<and> post_projects sc ev req w =
             (\<lparr>status = 400, sent = Invalid ''Invalid project data'' issues\<rparr>, w)))
   \<and> (insertProjectSchema_partial_parse sc (body req) = Inl e \<longrightarrow>
        w_db (snd (put_project sc ev req w)) = w_db w
        \<and> (getProject (param req) (w_db w) = Inr (Some p) \<and> p_userId p = sub req \<longrightarrow>
             (\<exists>issues. e = ZodError issues
                \<and> put_project sc ev req w =
                    (\<lparr>status = 400, sent = Invalid ''Invalid project data'' issues\<rparr>,
                     w\<lparr>w_calls := w_calls w @ [GetProject (param req)]\<rparr>)))
        \<and> (getProject (param req) (w_db w) = Inl x \<longrightarrow>
             put_project sc ev req w =
               (\<lparr>status = 500, sent = Message ''Failed to update project''\<rparr>,
                w\<lparr>w_calls := w_calls w @ [GetProject (param req)]\<rparr>))
        \<and> (getProject (param req) (w_db w) = Inr None \<longrightarrow>
             put_project sc ev req w =
               (\<lparr>status = 404, sent = Message ''Project not found''\<rparr>,
                w\<lparr>w_calls := w_calls w @ [GetProject (param req)]\<rparr>))
        \<and> (getProject (param req) (w_db w) = Inr (Some p) \<and> p_userId p \<noteq> sub req \<longrightarrow>
             put_project sc ev req w =
               (\<lparr>status = 403, sent = Message ''Access denied''\<rparr>,
                w\<lparr>w_calls := w_calls w @ [GetProject (param req)]\<rparr>)))
   \<and> (insertApiEndpointSchema_parse sc ((body req)(''projectId'' \<mapsto> JStr (param req))) = Inl e \<longrightarrow>
        w_db (snd (post_endpoints sc ev req w)) = w_db w
        \<and> (getProject (param req) (w_db w) = Inr (Some p) \<and> p_userId p = sub req \<longrightarrow>
             (\<exists>issues. e = ZodError issues
                \<and> post_endpoints sc ev req w =
                    (\<lparr>status = 400, sent = Invalid ''Invalid endpoint data'' issues\<rparr>,
                     w\<lparr>w_calls := w_calls w @ [GetProject (param req)]\<rparr>)))
        \<and> (getProject (param req) (w_db w) = Inl x \<longrightarrow>
             post_endpoints sc ev req w =
               (\<lparr>status = 500, sent = Message ''Failed to create endpoint''\<rparr>,
                w\<lparr>w_calls := w_calls w @ [GetProject (param req)]\<rparr>))
        \<and> (getProject (param req) (w_db w) = Inr None \<longrightarrow>
             post_endpoints sc ev req w =
               (\<lparr>status = 404, sent = Message ''Project not found''\<rparr>,
                w\<lparr>w_calls := w_calls w @ [GetProject (param req)]\<rparr>))
        \<and> (getProject (param req) (w_db w) = Inr (Some p) \<and> p_userId p \<noteq> sub req \<longrightarrow>
             post_endpoints sc ev req w =
               (\<lparr>status = 403, sent = Message ''Access denied''\<rparr>,
                w\<lparr>w_calls := w_calls w @ [GetProject (param req)]\<rparr>)))"
  using post_projects_invalid [of sc req e ev w]
    put_project_invalid [of req w p sc e ev] put_project_invalid_db [of sc req e ev w]
    post_endpoints_invalid [of req w p sc e ev] post_endpoints_invalid_db [of sc req e ev w]
    put_project_before_parse(1) [of req w x sc ev]
    put_project_before_parse(2) [of req w sc ev]
    put_project_before_parse(3) [of req w p sc ev]
    post_endpoints_before_parse(1) [of req w x sc ev]
    post_endpoints_before_parse(2) [of req w sc ev]
    post_endpoints_before_parse(3) [of req w p sc ev]
  by blast

theorem invalid_body_rejected_witness:
  "post_projects example_schemas example_env
     \<lparr>sub = ''alice'', param = [], body = Map.empty\<rparr> example_world
     = (\<lparr>status = 400, sent = Invalid ''Invalid project data'' [''title: Required'']\<rparr>, example_world)
   \<and> put_project example_schemas example_env
        \<lparr>sub = ''alice'', param = ''p1'', body = [''title'' \<mapsto> JNum 5]\<rparr> example_world
     = (\<lparr>status = 400, sent = Invalid ''Invalid project data'' [''title: Expected string'']\<rparr>,
        \<lparr>w_db = Some example_db, w_calls = [GetProject ''p1'']\<rparr>)
   \<and> post_endpoints example_schemas example_env
        \<lparr>sub = ''alice'', param = ''p1'', body = Map.empty\<rparr> example_world
     = (\<lparr>status = 400, sent = Invalid ''Invalid endpoint data'' [''path: Required'']\<rparr>,
        \<lparr>w_db = Some example_db, w_calls = [GetProject ''p1'']\<rparr>)
   \<and> put_project example_schemas example_env
        \<lparr>sub = ''bob'', param = ''p1'', body = [''title'' \<mapsto> JNum 5]\<rparr> example_world
     = (\<lparr>status = 403, sent = Message ''Access denied''\<rparr>,
        \<lparr>w_db = Some example_db, w_calls = [GetProject ''p1'']\<rparr>)
   \<and> put_project example_schemas example_env
        \<lparr>sub = ''alice'', param = ''p7'', body = [''title'' \<mapsto> JNum 5]\<rparr> example_world
     = (\<lparr>status = 404, sent = Message ''Project not found''\<rparr>,
        \<lparr>w_db = Some example_db, w_calls = [GetProject ''p7'']\<rparr>)
   \<and> put_project example_schemas example_env
        \<lparr>sub = ''alice'', param = ''p1'', body = [''title'' \<mapsto> JNum 5]\<rparr>
        \<lparr>w_db = None, w_calls = []\<rparr>
     = (\<lparr>status = 500, sent = Message ''Failed to update project''\<rparr>,
        \<lparr>w_db = None, w_calls = [GetProject ''p1'']\<rparr>)
   \<and> post_endpoints example_schemas example_env
        \<lparr>sub = ''bob'', param = ''p1'', body = Map.empty\<rparr> example_world
     = (\<lparr>status = 403, sent = Message ''Access denied''\<rparr>,
        \<lparr>w_db = Some example_db, w_calls = [GetProject ''p1'']\<rparr>)
   \<and> post_endpoints example_schemas example_env
        \<lparr>sub = ''alice'', param = ''p7'', body = Map.empty\<rparr> example_world
     = (\<lparr>status = 404, sent = Message ''Project not found''\<rparr>,
        \<lparr>w_db = Some example_db, w_calls = [GetProject ''p7'']\<rparr>)
   \<and> post_endpoints example_schemas example_env
        \<lparr>sub = ''alice'', param = ''p1'', body = Map.empty\<rparr> \<lparr>w_db = None, w_calls = []\<rparr>
     = (\<lparr>status = 500, sent = Message ''Failed to create endpoint''\<rparr>,
        \<lparr>w_db = None, w_calls = [GetProject ''p1'']\<rparr>)"
proof -
  have a: "insertProjectSchema_parse example_schemas [''userId'' \<mapsto> JStr ''alice'']
           = Inl (ZodError [''title: Required''])"
    by (simp add: insertProjectSchema_parse_def example_schemas_def required_string_def
        zObject_def zString_def)
  have b: "insertProjectSchema_partial_parse example_schemas [''title'' \<mapsto> JNum 5]
           = Inl (ZodError [''title: Expected string''])"
    by (simp add: insertProjectSchema_partial_parse_def example_schemas_def optional_string_def
        zObject_def zStringOptional_def)
  have c: "insertApiEndpointSchema_parse example_schemas [''projectId'' \<mapsto> JStr ''p1'']
           = Inl (ZodError [''path: Required''])"
    by (simp add: insertApiEndpointSchema_parse_def example_schemas_def required_string_def
        zObject_def zString_def)
  have c7: "insertApiEndpointSchema_parse example_schemas [''projectId'' \<mapsto> JStr ''p7'']
           = Inl (ZodError [''path: Required''])"
    by (simp add: insertApiEndpointSchema_parse_def example_schemas_def required_string_def
        zObject_def zString_def)
  have owner: "p_userId example_project = ''alice''"
    by (simp add: example_project_def)
  have missing: "getProject ''p7'' (Some example_db) = Inr None"
    by (simp add: getProject_def example_db_def example_project_def first_row_def)
  have down: "getProject ''p1'' None = Inl TypeError"
    by (simp add: getProject_def)
  show ?thesis
    using a b c c7 owner example_lookup missing down
      invalid_body_rejected [of example_schemas "\<lparr>sub = ''alice'', param = [], body = Map.empty\<rparr>"
        "ZodError [''title: Required'']" example_env example_world example_project TypeError]
      invalid_body_rejected [of example_schemas
        "\<lparr>sub = ''alice'', param = ''p1'', body = [''title'' \<mapsto> JNum 5]\<rparr>"
        "ZodError [''title: Expected string'']" example_env example_world example_project TypeError]
      invalid_body_rejected [of example_schemas "\<lparr>sub = ''alice'', param = ''p1'', body = Map.empty\<rparr>"
        "ZodError [''path: Required'']" example_env example_world example_project TypeError]
      invalid_body_rejected [of example_schemas
        "\<lparr>sub = ''bob'', param = ''p1'', body = [''title'' \<mapsto> JNum 5]\<rparr>"
        "ZodError [''title: Expected string'']" example_env example_world example_project TypeError]
      invalid_body_rejected [of example_schemas
        "\<lparr>sub = ''alice'', param = ''p7'', body = [''title'' \<mapsto> JNum 5]\<rparr>"
        "ZodError [''title: Expected string'']" example_env example_world example_project TypeError]
      invalid_body_rejected [of example_schemas
        "\<lparr>sub = ''alice'', param = ''p1'', body = [''title'' \<mapsto> JNum 5]\<rparr>"
        "ZodError [''title: Expected string'']" example_env "\<lparr>w_db = None, w_calls = []\<rparr>"
        example_project TypeError]
      invalid_body_rejected [of example_schemas "\<lparr>sub = ''bob'', param = ''p1'', body = Map.empty\<rparr>"
        "ZodError [''path: Required'']" example_env example_world example_project TypeError]
      invalid_body_rejected [of example_schemas "\<lparr>sub = ''alice'', param = ''p7'', body = Map.empty\<rparr>"
        "ZodError [''path: Required'']" example_env example_world example_project TypeError]
      invalid_body_rejected [of example_schemas "\<lparr>sub = ''alice'', param = ''p1'', body = Map.empty\<rparr>"
        "ZodError [''path: Required'']" example_env "\<lparr>w_db = None, w_calls = []\<rparr>"
        example_project TypeError]
    by (simp add: example_world_def)
qed

text \<open>
  Claim C6, as the claim states it, fails for the API endpoint entity: the only
  \<open>PUT\<close> and \<open>DELETE\<close> handlers that \<open>registerRoutes\<close> installs are those of
  \<open>/api/projects/:id\<close>. No handler updates or deletes an API endpoint.
\<close>

theorem put_delete_routes:
  "filter (\<lambda>r. fst r = PUT \<or> fst r = DELETE) registerRoutes
     = [(PUT, ''/api/projects/:id''), (DELETE, ''/api/projects/:id'')]"
  by (simp add: registerRoutes_def)

text \<open>
  Claim C6, amended. For projects \<open>registerRoutes\<close> installs a handler for each of
  \<open>POST\<close>, \<open>GET\<close> (the list and one project), \<open>PUT\<close> and \<open>DELETE\<close>; for the API
  endpoints of a project it installs a \<open>GET\<close> and a \<open>POST\<close> handler only.
\<close>

theorem routes_per_entity:
  "map fst (filter (\<lambda>r. snd r = ''/api/projects'' \<or> snd r = ''/api/projects/:id'') registerRoutes)
     = [GET, GET, POST, PUT, DELETE]
   \<and> map fst (filter (\<lambda>r. snd r = ''/api/projects/:projectId/endpoints'') registerRoutes)
     = [GET, POST]
   \<and> filter (\<lambda>r. snd r \<notin> {''/api/projects'', ''/api/projects/:id'',
                           ''/api/projects/:projectId/endpoints''}) registerRoutes
     = [(GET, ''/api/auth/user''), (POST, ''/api/ai/generate-component''),
        (POST, ''/api/ai/generate-backend'')]"
  by (simp add: registerRoutes_def)

section \<open>AI facade: requests issued and results returned\<close>

lemma generateReactComponent_issued:
  "snd (generateReactComponent ai c f sp issued) =
     issued @ [\<lparr>g_model = ''gemini-2.5-flash'', g_contents = component_prompt c f sp,
                g_responseMimeType = None\<rparr>]"
  by (simp add: generateReactComponent_def generateContent_def split: sum.splits)

lemma optimizeCode_issued:
  "snd (optimizeCode ai code ty issued) =
     issued @ [\<lparr>g_model = ''gemini-2.5-pro'', g_contents = optimize_prompt code ty,
                g_responseMimeType = None\<rparr>]"
  by (simp add: optimizeCode_def generateContent_def split: sum.splits)

lemma generateBackendCode_issued:
  "snd (generateBackendCode ai db fw fs issued) =
     issued @ [flash (routesPrompt db fw fs), flash (modelsPrompt db fw fs),
               flash (middlewarePrompt db fw fs)]"
  by (simp add: generateBackendCode_def generateContent_def split: sum.splits)

lemma buildFromPrompt_issued:
  "snd (buildFromPrompt JSON_parse ai up issued) =
     issued @ [\<lparr>g_model = ''gemini-2.5-pro'', g_contents = build_prompt up,
                g_responseMimeType = Some ''application/json''\<rparr>]"
  by (simp add: buildFromPrompt_def generateContent_def split: sum.splits option.splits jsval.splits)

text \<open>
  Claim C8. Whatever the model answers, rejections included, \<open>generateReactComponent\<close>
  and \<open>optimizeCode\<close> add exactly one request to the requests issued, and
  \<open>generateBackendCode\<close> exactly three: the routes, the models and the middleware
  prompt, in this order. (\<open>buildFromPrompt\<close> adds exactly one as well.) No operation
  issues a request again after a rejection.
\<close>

theorem no_retry:
  "snd (generateReactComponent ai c f sp issued) =
     issued @ [\<lparr>g_model = ''gemini-2.5-flash'', g_contents = component_prompt c f sp,
                g_responseMimeType = None\<rparr>]
   \<and> snd (optimizeCode ai code ty issued) =
     issued @ [\<lparr>g_model = ''gemini-2.5-pro'', g_contents = optimize_prompt code ty,
                g_responseMimeType = None\<rparr>]
   \<and> snd (generateBackendCode ai db fw fs issued) =
     issued @ [flash (routesPrompt db fw fs), flash (modelsPrompt db fw fs),
               flash (middlewarePrompt db fw fs)]
   \<and> snd (buildFromPrompt JSON_parse ai up issued) =
     issued @ [\<lparr>g_model = ''gemini-2.5-pro'', g_contents = build_prompt up,
                g_responseMimeType = Some ''application/json''\<rparr>]"
  by (intro conjI generateReactComponent_issued optimizeCode_issued generateBackendCode_issued
      buildFromPrompt_issued)

theorem no_retry_witness:
  "generateReactComponent ai_down ''button'' ''React'' ''dark'' [] =
     (Inl (Error ''Failed to generate component with AI''),
      [\<lparr>g_model = ''gemini-2.5-flash'', g_contents = component_prompt ''button'' ''React'' ''dark'',
        g_responseMimeType = None\<rparr>])
   \<and> generateBackendCode ai_down ''PostgreSQL'' ''Express'' [(''userAuth'', True)] [] =
     (Inl (Error ''Failed to generate backend code with AI''),
      [flash (routesPrompt ''PostgreSQL'' ''Express'' [(''userAuth'', True)]),
       flash (modelsPrompt ''PostgreSQL'' ''Express'' [(''userAuth'', True)]),
       flash (middlewarePrompt ''PostgreSQL'' ''Express'' [(''userAuth'', True)])])
   \<and> length (snd (optimizeCode ai_down ''x'' Component [])) = 1"
proof -
  have "fst (generateReactComponent ai_down ''button'' ''React'' ''dark'' []) =
          Inl (Error ''Failed to generate component with AI'')"
    by (simp add: generateReactComponent_def generateContent_def ai_down_def)
  moreover have "fst (generateBackendCode ai_down ''PostgreSQL'' ''Express'' [(''userAuth'', True)] []) =
          Inl (Error ''Failed to generate backend code with AI'')"
    by (simp add: generateBackendCode_def generateContent_def ai_down_def)
  ultimately show ?thesis
    using no_retry [of ai_down "''button''" "''React''" "''dark''" "[]" "''x''" Component
        "''PostgreSQL''" "''Express''" "[(''userAuth'', True)]" example_parse "''shop''"]
    by (simp add: prod_eq_iff)
qed

text \<open>
  Claim C9. \<open>optimizeCode\<close> always returns a string and never throws: the original
  code when the model call is rejected, and when the response text is \<open>undefined\<close> or
  empty; the response text otherwise.
\<close>

theorem optimizeCode_keeps_input:
  "(\<exists>out. fst (optimizeCode ai code ty issued) = Inr out)
   \<and> (ai issued \<lparr>g_model = ''gemini-2.5-pro'', g_contents = optimize_prompt code ty,
                   g_responseMimeType = None\<rparr> = Inl e
        \<longrightarrow> fst (optimizeCode ai code ty issued) = Inr code)
   \<and> (ai issued \<lparr>g_model = ''gemini-2.5-pro'', g_contents = optimize_prompt code ty,
                   g_responseMimeType = None\<rparr> = Inr r
        \<and> (r_text r = None \<or> r_text r = Some [])
        \<longrightarrow> fst (optimizeCode ai code ty issued) = Inr code)
   \<and> (ai issued \<lparr>g_model = ''gemini-2.5-pro'', g_contents = optimize_prompt code ty,
                   g_responseMimeType = None\<rparr> = Inr r
        \<and> r_text r = Some t \<and> t \<noteq> []
        \<longrightarrow> fst (optimizeCode ai code ty issued) = Inr t)"
  by (auto simp: optimizeCode_def generateContent_def or_else_def split: sum.splits option.splits)

theorem optimizeCode_keeps_input_witness:
  "fst (optimizeCode ai_down ''let x = 1'' Component []) = Inr ''let x = 1''
   \<and> fst (optimizeCode (ai_says None) ''let x = 1'' Backend []) = Inr ''let x = 1''
   \<and> fst (optimizeCode (ai_says (Some [])) ''let x = 1'' Backend []) = Inr ''let x = 1''
   \<and> fst (optimizeCode (ai_says (Some ''const x = 1'')) ''let x = 1'' Component []) = Inr ''const x = 1''"
  using optimizeCode_keeps_input [of ai_down "''let x = 1''" Component "[]"
      "Error ''503 Service Unavailable''"]
    optimizeCode_keeps_input [of "ai_says None" "''let x = 1''" Backend "[]" _ "\<lparr>r_text = None\<rparr>"]
    optimizeCode_keeps_input [of "ai_says (Some [])" "''let x = 1''" Backend "[]" _ "\<lparr>r_text = Some []\<rparr>"]
    optimizeCode_keeps_input [of "ai_says (Some ''const x = 1'')" "''let x = 1''" Component "[]" _
      "\<lparr>r_text = Some ''const x = 1''\<rparr>" "''const x = 1''"]
  by (simp add: ai_down_def ai_says_def)

text \<open>
  Claim C7. Let \<open>JSON.parse\<close> read \<open>{}\<close> as the empty object, and let the model call
  return a response. If the response text is \<open>undefined\<close> or empty, \<open>buildFromPrompt\<close>
  returns the six fixed defaults. If the text is present and \<open>JSON.parse\<close> throws on
  it, \<open>buildFromPrompt\<close> throws "Failed to generate website from prompt". If the text
  parses to an object, each of the six fields is the default when the object lacks
  the key, and otherwise the object's value as it stands, of whatever type, unless
  that value is falsy, which gives the default too: nothing else is checked.
\<close>

theorem buildFromPrompt_best_effort:
  assumes "JSON_parse ''{}'' = Some (JObj Map.empty)"
    and "ai issued \<lparr>g_model = ''gemini-2.5-pro'', g_contents = build_prompt up,
                     g_responseMimeType = Some ''application/json''\<rparr> = Inr response"
  shows "(r_text response = None \<or> r_text response = Some [] \<longrightarrow>
            fst (buildFromPrompt JSON_parse ai up issued) =
              Inr \<lparr>s_title = JStr ''Generated Website'',
                    s_description = JStr ''Generated using AI'',
                    s_components = JArr [],
                    s_htmlCode = JStr ''<!DOCTYPE html><html><head><title>Generated Site</title></head><body><h1>Generated Content</h1></body></html>'',
                    s_cssCode = JStr ''/* Generated styles */'',
                    s_jsCode = JStr ''// Generated JavaScript''\<rparr>)
       \<and> (\<forall>t. r_text response = Some t \<and> t \<noteq> [] \<and> JSON_parse t = None \<longrightarrow>
            fst (buildFromPrompt JSON_parse ai up issued) =
              Inl (Error ''Failed to generate website from prompt''))
       \<and> (\<forall>t m. r_text response = Some t \<and> t \<noteq> [] \<and> JSON_parse t = Some (JObj m) \<longrightarrow>
            fst (buildFromPrompt JSON_parse ai up issued) =
              Inr \<lparr>s_title = (case m ''title'' of None \<Rightarrow> JStr ''Generated Website''
                      | Some v \<Rightarrow> if truthy v then v else JStr ''Generated Website''),
                    s_description = (case m ''description'' of None \<Rightarrow> JStr ''Generated using AI''
                      | Some v \<Rightarrow> if truthy v then v else JStr ''Generated using AI''),
                    s_components = (case m ''components'' of None \<Rightarrow> JArr []
                      | Some v \<Rightarrow> if truthy v then v else JArr []),
                    s_htmlCode = (case m ''htmlCode'' of
                        None \<Rightarrow> JStr ''<!DOCTYPE html><html><head><title>Generated Site</title></head><body><h1>Generated Content</h1></body></html>''
                      | Some v \<Rightarrow> if truthy v then v else JStr ''<!DOCTYPE html><html><head><title>Generated Site</title></head><body><h1>Generated Content</h1></body></html>''),
                    s_cssCode = (case m ''cssCode'' of None \<Rightarrow> JStr ''/* Generated styles */''
                      | Some v \<Rightarrow> if truthy v then v else JStr ''/* Generated styles */''),
                    s_jsCode = (case m ''jsCode'' of None \<Rightarrow> JStr ''// Generated JavaScript''
                      | Some v \<Rightarrow> if truthy v then v else JStr ''// Generated JavaScript'')\<rparr>)"
proof (intro conjI allI impI)
  assume "r_text response = None \<or> r_text response = Some []"
  then have "or_else (r_text response) ''{}'' = ''{}''"
    by (auto simp: or_else_def)
  with assms show "fst (buildFromPrompt JSON_parse ai up issued) =
      Inr \<lparr>s_title = JStr ''Generated Website'',
            s_description = JStr ''Generated using AI'',
            s_components = JArr [],
            s_htmlCode = JStr ''<!DOCTYPE html><html><head><title>Generated Site</title></head><body><h1>Generated Content</h1></body></html>'',
            s_cssCode = JStr ''/* Generated styles */'',
            s_jsCode = JStr ''// Generated JavaScript''\<rparr>"
    by (simp add: buildFromPrompt_def generateContent_def js_or_def property_def)
next
  fix t
  assume "r_text response = Some t \<and> t \<noteq> [] \<and> JSON_parse t = None"
  then have "JSON_parse (or_else (r_text response) ''{}'') = None"
    by (simp add: or_else_def)
  with assms(2) show "fst (buildFromPrompt JSON_parse ai up issued) =
      Inl (Error ''Failed to generate website from prompt'')"
    by (simp add: buildFromPrompt_def generateContent_def)
next
  fix t m
  assume "r_text response = Some t \<and> t \<noteq> [] \<and> JSON_parse t = Some (JObj m)"
  then have "JSON_parse (or_else (r_text response) ''{}'') = Some (JObj m)"
    by (simp add: or_else_def)
  with assms(2) show "fst (buildFromPrompt JSON_parse ai up issued) =
      Inr \<lparr>s_title = (case m ''title'' of None \<Rightarrow> JStr ''Generated Website''
              | Some v \<Rightarrow> if truthy v then v else JStr ''Generated Website''),
            s_description = (case m ''description'' of None \<Rightarrow> JStr ''Generated using AI''
              | Some v \<Rightarrow> if truthy v then v else JStr ''Generated using AI''),
            s_components = (case m ''components'' of None \<Rightarrow> JArr []
              | Some v \<Rightarrow> if truthy v then v else JArr []),
            s_htmlCode = (case m ''htmlCode'' of
                None \<Rightarrow> JStr ''<!DOCTYPE html><html><head><title>Generated Site</title></head><body><h1>Generated Content</h1></body></html>''
              | Some v \<Rightarrow> if truthy v then v else JStr ''<!DOCTYPE html><html><head><title>Generated Site</title></head><body><h1>Generated Content</h1></body></html>''),
            s_cssCode = (case m ''cssCode'' of None \<Rightarrow> JStr ''/* Generated styles */''
              | Some v \<Rightarrow> if truthy v then v else JStr ''/* Generated styles */''),
            s_jsCode = (case m ''jsCode'' of None \<Rightarrow> JStr ''// Generated JavaScript''
              | Some v \<Rightarrow> if truthy v then v else JStr ''// Generated JavaScript'')\<rparr>"
    by (simp add: buildFromPrompt_def generateContent_def js_or_def property_def)
qed

theorem buildFromPrompt_best_effort_witness:
  \<open>example_parse ''{}'' = Some (JObj Map.empty)
   \<and> fst (buildFromPrompt example_parse (ai_says None) ''a shop'' []) =
       Inr \<lparr>s_title = JStr ''Generated Website'',
             s_description = JStr ''Generated using AI'',
             s_components = JArr [],
             s_htmlCode = JStr ''<!DOCTYPE html><html><head><title>Generated Site</title></head><body><h1>Generated Content</h1></body></html>'',
             s_cssCode = JStr ''/* Generated styles */'',
             s_jsCode = JStr ''// Generated JavaScript''\<rparr>
   \<and> fst (buildFromPrompt example_parse (ai_says (Some ''Sorry, I cannot'')) ''a shop'' []) =
       Inl (Error ''Failed to generate website from prompt'')
   \<and> fst (buildFromPrompt example_parse (ai_says (Some ''{"title": "Shop", "jsCode": 7}'')) ''a shop'' []) =
       Inr \<lparr>s_title = JStr ''Shop'',
             s_description = JStr ''Generated using AI'',
             s_components = JArr [],
             s_htmlCode = JStr ''<!DOCTYPE html><html><head><title>Generated Site</title></head><body><h1>Generated Content</h1></body></html>'',
             s_cssCode = JStr ''/* Generated styles */'',
             s_jsCode = JNum 7\<rparr>\<close>
proof -
  have empty: \<open>example_parse ''{}'' = Some (JObj Map.empty)\<close>
    by (simp add: example_parse_def)
  have none: \<open>example_parse ''Sorry, I cannot'' = None\<close>
    by (simp add: example_parse_def)
  have shop: \<open>example_parse ''{"title": "Shop", "jsCode": 7}''
                = Some (JObj [''title'' \<mapsto> JStr ''Shop'', ''jsCode'' \<mapsto> JNum 7])\<close>
    by (simp add: example_parse_def)
  have says: "\<And>t issued p. ai_says t issued p = Inr \<lparr>r_text = t\<rparr>"
    by (simp add: ai_says_def)
  show ?thesis
    using empty
      buildFromPrompt_best_effort [of example_parse "ai_says None" "[]" "''a shop''"
        "\<lparr>r_text = None\<rparr>"]
      buildFromPrompt_best_effort [of example_parse "ai_says (Some ''Sorry, I cannot'')" "[]"
        "''a shop''" "\<lparr>r_text = Some ''Sorry, I cannot''\<rparr>"]
      buildFromPrompt_best_effort [of example_parse
        \<open>ai_says (Some ''{"title": "Shop", "jsCode": 7}'')\<close> "[]" "''a shop''"
        \<open>\<lparr>r_text = Some ''{"title": "Shop", "jsCode": 7}''\<rparr>\<close>]
    by (simp add: says none shop truthy_def)
qed

end
